theory Spec2Isabelle
  imports Main
begin

section \<open>QuizzBot: the game session of \<^verbatim>\<open>src/class/quizzbot.js\<close>\<close>

text \<open>
  The class \<^verbatim>\<open>QuizzBot\<close> is embedded as functions on a record of its fields.
  Mutation is explicit state passing, \<^verbatim>\<open>setTimeout\<close>/\<^verbatim>\<open>clearTimeout\<close> act on a
  list of pending timers held in the state, a thrown \<^verbatim>\<open>TypeError\<close> is the left
  summand of the result, and the JavaScript values \<^verbatim>\<open>undefined\<close>/\<^verbatim>\<open>null\<close> are
  \<open>None\<close>.  Times are integers (milliseconds).
\<close>

subsection \<open>Options (the constructor, lines 21-28)\<close>

text \<open>The \<^verbatim>\<open>options\<close> object as the caller passes it: every field is absent
  (\<^verbatim>\<open>undefined\<close>, \<open>None\<close>) or holds a value of its type, a number of milliseconds or a
  count.  A field that holds \<^verbatim>\<open>null\<close> or a value of another type is outside this type.\<close>

record RawOptions =
  opt_questionDuration :: "int option"
  opt_timeBetweenQuestion :: "int option"
  opt_timeBeforeTip :: "int option"
  opt_nickServPassword :: "string option"
  opt_continuousNoAnswer :: "int option"

text \<open>\<^verbatim>\<open>this.options\<close> after the constructor has run.\<close>

record Options =
  questionDuration :: int
  timeBetweenQuestion :: int
  timeBeforeTip :: int
  nickServPassword :: "string option"
  continuousNoAnswer :: int

text \<open>\<^verbatim>\<open>v || d\<close> on a number that may be undefined: \<^verbatim>\<open>undefined\<close> and \<^verbatim>\<open>0\<close> are falsy.\<close>

definition js_or :: "int option \<Rightarrow> int \<Rightarrow> int" where
  "js_or v d = (case v of None \<Rightarrow> d | Some x \<Rightarrow> if x = 0 then d else x)"

text \<open>
  \<^verbatim>\<open>options.questionDuration < 10000 ? 10000 : options.questionDuration || 25000\<close>.
  The conditional binds weaker than \<^verbatim>\<open>||\<close>; a comparison with \<^verbatim>\<open>undefined\<close> is false.
\<close>

definition effective_questionDuration :: "RawOptions \<Rightarrow> int" where
  "effective_questionDuration opts =
     (case opt_questionDuration opts of
        None \<Rightarrow> js_or None 25000
      | Some d \<Rightarrow> if d < 10000 then 10000 else js_or (Some d) 25000)"

text \<open>
  \<^verbatim>\<open>(options.timeBeforeTip > this.options.questionDuration
      ? Math.floor(this.options.questionDuration / 2) : options.timeBeforeTip) || 10000\<close>,
  read after \<^verbatim>\<open>this.options.questionDuration\<close> has been assigned.
\<close>

definition effective_timeBeforeTip :: "RawOptions \<Rightarrow> int" where
  "effective_timeBeforeTip opts =
     (case opt_timeBeforeTip opts of
        None \<Rightarrow> js_or None 10000
      | Some t \<Rightarrow>
          if t > effective_questionDuration opts
          then js_or (Some (effective_questionDuration opts div 2)) 10000
          else js_or (Some t) 10000)"

definition constructor_options :: "RawOptions \<Rightarrow> Options" where
  "constructor_options opts =
     \<lparr> questionDuration = effective_questionDuration opts,
       timeBetweenQuestion = js_or (opt_timeBetweenQuestion opts) 15000,
       timeBeforeTip = effective_timeBeforeTip opts,
       nickServPassword =
         (case opt_nickServPassword opts of
            None \<Rightarrow> None
          | Some p \<Rightarrow> if p = [] then None else Some p),
       continuousNoAnswer = js_or (opt_continuousNoAnswer opts) 8 \<rparr>"

subsection \<open>Questions and the question bank (loadQuestions, lines 86-111)\<close>

text \<open>
  \<^verbatim>\<open>question.js\<close> is not among the sources.  A question is the object handed to
  \<^verbatim>\<open>new Question(...)\<close>: the prompt and the list of answers, where an answer can be
  \<^verbatim>\<open>undefined\<close>.
\<close>

record Question =
  question :: string
  answers :: "string option list"

datatype error = TypeError | FileNotFound

text \<open>\<^verbatim>\<open>String.prototype.split\<close> with a one-character separator.\<close>

fun split_on :: "char \<Rightarrow> string \<Rightarrow> string list" where
  "split_on sep [] = [[]]"
| "split_on sep (c # cs) =
     (if c = sep then [] # split_on sep cs
      else (case split_on sep cs of
              [] \<Rightarrow> [[c]]
            | p # ps \<Rightarrow> (c # p) # ps))"

text \<open>\<^verbatim>\<open>split(/\r?\n/)\<close>: a line feed ends a line, and takes a carriage return
  right before it along.\<close>

fun split_lines :: "string \<Rightarrow> string list" where
  "split_lines [] = [[]]"
| "split_lines [c] = (if c = CHR 0x0A then [[], []] else [[c]])"
| "split_lines (c # d # cs) =
     (if c = CHR 0x0A then [] # split_lines (d # cs)
      else if c = CHR 0x0D \<and> d = CHR 0x0A then [] # split_lines cs
      else (case split_lines (d # cs) of
              [] \<Rightarrow> [[c]]
            | p # ps \<Rightarrow> (c # p) # ps))"

text \<open>
  A string is the list of its code units, which are below 0x100 here.  The white space
  and line terminators of JavaScript among them are the tab, the line feed, the vertical
  tab, the form feed, the carriage return, the space and the no-break space (U+00A0);
  the others (U+1680, U+2000 to U+200A, U+2028, U+2029, U+202F, U+205F, U+3000, U+FEFF)
  are above 0xFF.  \<^verbatim>\<open>String.prototype.trim\<close> strips them from both ends.
\<close>

definition is_space :: "char \<Rightarrow> bool" where
  "is_space c =
     (c \<in> set [CHR 0x09, CHR 0x0A, CHR 0x0B, CHR 0x0C, CHR 0x0D, CHR 0x20, CHR 0xA0])"

definition trim :: "string \<Rightarrow> string" where
  "trim s = rev (dropWhile is_space (rev (dropWhile is_space s)))"

text \<open>The body of \<^verbatim>\<open>array.forEach(line => ...)\<close>: the question pushed for one line.
  \<^verbatim>\<open>splitedLine[1]\<close> is \<^verbatim>\<open>undefined\<close> when the line holds no backslash.\<close>

definition question_of_line :: "string \<Rightarrow> Question" where
  "question_of_line line =
     (let splitedLine = split_on (CHR 0x5C) line;
          splitedLine1 =
            (if 1 < length splitedLine then Some (trim (splitedLine ! 1)) else None)
      in \<lparr> question = hd splitedLine, answers = [splitedLine1] \<rparr>)"

definition load_txt :: "string \<Rightarrow> Question list" where
  "load_txt content = map question_of_line (split_lines content)"

text \<open>\<^verbatim>\<open>file.lastIndexOf(".")\<close>, \<open>-1\<close> when there is no dot.\<close>

fun lastIndexOf :: "char \<Rightarrow> string \<Rightarrow> int" where
  "lastIndexOf c [] = -1"
| "lastIndexOf c (x # xs) =
     (let r = lastIndexOf c xs
      in if r \<ge> 0 then r + 1 else if x = c then 0 else -1)"

text \<open>
  \<^verbatim>\<open>file.substr((~-file.lastIndexOf(".") >>> 0) + 2)\<close>: \<^verbatim>\<open>~-i\<close> is \<open>i - 1\<close>, and
  \<^verbatim>\<open>>>> 0\<close> reads it as an unsigned 32-bit number, so that no dot, or a leading dot,
  gives the empty extension.
\<close>

definition file_ext :: "string \<Rightarrow> string" where
  "file_ext file = drop (nat (((lastIndexOf (CHR ''.'') file - 1) mod 2 ^ 32) + 2)) file"

text \<open>The file system: what \<^verbatim>\<open>require(file)\<close> and \<^verbatim>\<open>fs.readFileSync(file)\<close> return;
  both throw on a file that is not there.\<close>

record FileSystem =
  required :: "string \<Rightarrow> Question list option"
  readFileSync :: "string \<Rightarrow> string option"

definition load_file :: "FileSystem \<Rightarrow> string \<Rightarrow> error + Question list" where
  "load_file fs file =
     (if file_ext file = ''json'' then
        (case required fs file of None \<Rightarrow> Inl FileNotFound | Some db \<Rightarrow> Inr db)
      else if file_ext file = ''txt'' then
        (case readFileSync fs file of
           None \<Rightarrow> Inl FileNotFound
         | Some content \<Rightarrow> Inr (load_txt content))
      else Inr [])"

fun loadQuestions :: "FileSystem \<Rightarrow> string list \<Rightarrow> error + Question list" where
  "loadQuestions fs [] = Inr []"
| "loadQuestions fs (file # files) =
     (case load_file fs file of
        Inl e \<Rightarrow> Inl e
      | Inr qs \<Rightarrow>
          (case loadQuestions fs files of
             Inl e \<Rightarrow> Inl e
           | Inr rest \<Rightarrow> Inr (qs @ rest)))"

subsection \<open>Users (the collaborator \<^verbatim>\<open>user.js\<close>)\<close>

type_synonym nick = string
type_synonym chan = string

text \<open>The counters of a user; \<open>totalAnswers\<close> is the source's \<^verbatim>\<open>u.answers\<close>.\<close>

record User =
  name :: nick
  points :: int
  goodAnswers :: int
  totalAnswers :: int
  quizzStarted :: int
  quizzStopped :: int

definition new_User :: "nick \<Rightarrow> User" where
  "new_User n =
     \<lparr> name = n, points = 0, goodAnswers = 0, totalAnswers = 0,
       quizzStarted = 0, quizzStopped = 0 \<rparr>"

text \<open>
  Modelled from the spec: \<^verbatim>\<open>user.js\<close> is not among the sources, and
  \<^verbatim>\<open>user.incrementPoints()\<close> is the point of the spec's \<^verbatim>\<open>recordCorrect\<close>.
\<close>

definition incrementPoints :: "User \<Rightarrow> User" where
  "incrementPoints u = u\<lparr>points := points u + 1\<rparr>"

text \<open>
  Modelled from the spec: \<^verbatim>\<open>user.plusGoodAnswer()\<close> is the rest of what a correct answer
  does to the counters.  It gives the correct-answer credit and counts the answer: the
  spec's scenario C has the total of answers grow with a correct answer, its data model
  keeps the correct answers at most the total, and \<^verbatim>\<open>topCommand\<close> shows the ratio
  \<^verbatim>\<open>u.goodAnswers / u.answers\<close>.
\<close>

definition plusGoodAnswer :: "User \<Rightarrow> User" where
  "plusGoodAnswer u = u\<lparr>goodAnswers := goodAnswers u + 1, totalAnswers := totalAnswers u + 1\<rparr>"

text \<open>
  Modelled from the spec: \<^verbatim>\<open>user.plusAnswer()\<close> is the spec's \<^verbatim>\<open>recordIncorrect\<close>, which
  increments the total of answers only.
\<close>

definition plusAnswer :: "User \<Rightarrow> User" where
  "plusAnswer u = u\<lparr>totalAnswers := totalAnswers u + 1\<rparr>"

subsection \<open>Matching an answer (the collaborator \<^verbatim>\<open>question.js\<close>)\<close>

text \<open>Lower case on the letters A to Z.\<close>

definition to_lower :: "char \<Rightarrow> char" where
  "to_lower c =
     (if (65::nat) \<le> of_char c \<and> of_char c \<le> (90::nat)
      then char_of (of_char c + (32::nat)) else c)"

definition normalize :: "string \<Rightarrow> string" where
  "normalize s = map to_lower (trim s)"

text \<open>
  Modelled from the spec: \<^verbatim>\<open>Question.isGoodAnswer\<close> is not among the sources.  The spec's
  \<^verbatim>\<open>matches\<close> normalises case and surrounding white space on the candidate and on each
  accepted answer, and is true when an accepted answer equals the candidate.  The
  callback it is given runs before it returns.
\<close>

definition isGoodAnswer :: "Question \<Rightarrow> string \<Rightarrow> bool" where
  "isGoodAnswer q message =
     (Some (normalize message) \<in> set (map (map_option normalize) (answers q)))"

subsection \<open>The session\<close>

text \<open>What the bot says: the key of the localised text and its arguments, or what a
  method of the absent \<^verbatim>\<open>Question\<close> class displays (its prompt, its tip, its answer).
  The two durations are the options in milliseconds; the text shows them in seconds.\<close>

datatype announcement =
    NextQuestionIn int
  | NoGoodAnswer
  | QuestionEndingIn int
  | GoodAnswer nick int
  | RequestedStartQuizz nick
  | StartingQuizz
  | RequestedStopQuizz nick
  | StoppingQuizzForInactivity
  | StoppingQuizz
  | AskQuestion Question
  | DisplayAnswer Question
  | DisplayTip Question
  | Said string

text \<open>The three closures that \<^verbatim>\<open>game\<close> hands to \<^verbatim>\<open>setTimeout\<close>, with the variables
  each one captures (\<^verbatim>\<open>user\<close>, \<^verbatim>\<open>to\<close>, \<^verbatim>\<open>message\<close>, \<^verbatim>\<open>nextQuestion\<close>).\<close>

datatype callback =
    NextQuestionCb "nick option" chan string Question
  | TotalCb "nick option" chan string
  | EndingSoonCb chan

record timer =
  handle :: nat
  due :: int
  action :: callback

text \<open>
  The fields of \<^verbatim>\<open>QuizzBot\<close>, then what the runtime and the collaborators hold: the
  pending timers, the next timer handle, the clock, the lines said so far, the user
  list, the number of \<^verbatim>\<open>User.saveUserlist()\<close> calls and the number of
  \<^verbatim>\<open>Question.getNextQuestion\<close> calls.
\<close>

record Session =
  options :: Options
  running :: bool
  currentQuestion :: "Question option"
  currentTotalTimer :: "nat option"
  currentEndingSoonTimer :: "nat option"
  nextQuestionTimer :: "nat option"
  questions :: "Question list"
  continuousNoAnswerCount :: int
  timers :: "timer list"
  nextHandle :: nat
  now :: int
  said :: "(chan \<times> announcement) list"
  userlist :: "nick \<Rightarrow> User option"
  saved :: nat
  selections :: nat

text \<open>
  What the session is given from outside: the bot's own name, the transport's answer to
  \<^verbatim>\<open>user.isOp(self, to)\<close>, and the selection policy \<^verbatim>\<open>Question.getNextQuestion\<close>, which
  is not among the sources: \<open>getNextQuestion e n qs\<close> is what its call number \<open>n\<close>
  returns on the pool \<open>qs\<close>, \<open>None\<close> for \<^verbatim>\<open>null\<close>.  The last field is the language's
  own arithmetic: \<open>arrayIndex e a\<close> is the element that the expression \<^verbatim>\<open>a - 1\<close> selects
  in an array, for the string \<open>a\<close>: \<open>Some i\<close> when \<^verbatim>\<open>a - 1\<close> is the number \<open>i\<close> and \<open>i\<close> is an
  array index, \<open>None\<close> when it is \<^verbatim>\<open>NaN\<close>, a fraction, negative or infinite.
\<close>

record Env =
  botName :: nick
  isOp :: "nick \<Rightarrow> chan \<Rightarrow> bool"
  getNextQuestion :: "nat \<Rightarrow> Question list \<Rightarrow> Question option"
  arrayIndex :: "string \<Rightarrow> nat option"

text \<open>The state the constructor leaves, with the pool that \<^verbatim>\<open>loadQuestions\<close> loaded.\<close>

definition new_QuizzBot :: "RawOptions \<Rightarrow> Question list \<Rightarrow> Session" where
  "new_QuizzBot opts qs =
     \<lparr> options = constructor_options opts,
       running = False,
       currentQuestion = None,
       currentTotalTimer = None,
       currentEndingSoonTimer = None,
       nextQuestionTimer = None,
       questions = qs,
       continuousNoAnswerCount = 0,
       timers = [],
       nextHandle = 0,
       now = 0,
       said = [],
       userlist = (\<lambda>n. None),
       saved = 0,
       selections = 0 \<rparr>"

definition say :: "chan \<Rightarrow> announcement \<Rightarrow> Session \<Rightarrow> Session" where
  "say to a s = s\<lparr>said := said s @ [(to, a)]\<rparr>"

definition saveUserlist :: "Session \<Rightarrow> Session" where
  "saveUserlist s = s\<lparr>saved := Suc (saved s)\<rparr>"

text \<open>Node sets a delay below 1 or above \<open>2^31 - 1\<close> to 1.\<close>

definition timeout_delay :: "int \<Rightarrow> int" where
  "timeout_delay d = (if d < 1 \<or> 2147483647 < d then 1 else d)"

definition setTimeout :: "callback \<Rightarrow> int \<Rightarrow> Session \<Rightarrow> nat \<times> Session" where
  "setTimeout f d s =
     (nextHandle s,
      s\<lparr>timers := timers s @ [\<lparr>handle = nextHandle s, due = now s + timeout_delay d, action = f\<rparr>],
        nextHandle := Suc (nextHandle s)\<rparr>)"

text \<open>\<^verbatim>\<open>clearTimeout\<close> of \<^verbatim>\<open>null\<close>, or of a timer that has fired or was cleared, does
  nothing.\<close>

definition clearTimeout :: "nat option \<Rightarrow> Session \<Rightarrow> Session" where
  "clearTimeout h s =
     (case h of
        None \<Rightarrow> s
      | Some i \<Rightarrow> s\<lparr>timers := filter (\<lambda>t. handle t \<noteq> i) (timers s)\<rparr>)"

text \<open>A method call on a user object: the object is the entry of the user list.\<close>

definition the_user :: "Session \<Rightarrow> nick \<Rightarrow> User" where
  "the_user s n = (case userlist s n of None \<Rightarrow> new_User n | Some u \<Rightarrow> u)"

definition upd_user :: "nick \<Rightarrow> (User \<Rightarrow> User) \<Rightarrow> Session \<Rightarrow> Session" where
  "upd_user n f s = s\<lparr>userlist := (userlist s)(n := Some (f (the_user s n)))\<rparr>"

text \<open>Modelled from the spec: \<^verbatim>\<open>User.getUser\<close> is not among the sources; the spec's
  \<^verbatim>\<open>getOrCreate\<close> creates a record with zero counters if there is none.\<close>

definition getUser :: "nick \<Rightarrow> chan \<Rightarrow> Session \<Rightarrow> Session" where
  "getUser n to s = upd_user n (\<lambda>u. u) s"

subsection \<open>clearGame (lines 148-153) and stopCommand (lines 304-324)\<close>

definition clearGame :: "Session \<Rightarrow> Session" where
  "clearGame s =
     (let s1 = s\<lparr>currentQuestion := None\<rparr>;
          s2 = clearTimeout (currentEndingSoonTimer s1) s1
      in clearTimeout (currentTotalTimer s2) s2)"

text \<open>\<^verbatim>\<open>user !== null && !user.isOp(self, to)\<close>.\<close>

definition refused :: "Env \<Rightarrow> nick option \<Rightarrow> chan \<Rightarrow> bool" where
  "refused e user to = (case user of None \<Rightarrow> False | Some u \<Rightarrow> \<not> isOp e u to)"

definition stopCommand :: "Env \<Rightarrow> nick option \<Rightarrow> chan \<Rightarrow> string \<Rightarrow> Session \<Rightarrow> Session" where
  "stopCommand e user to message s =
     (if running s then
        (if refused e user to then s
         else
           (let s1 = s\<lparr>running := False\<rparr>;
                s2 = clearGame s1;
                s3 = clearTimeout (nextQuestionTimer s2) s2;
                s4 = (case user of
                        None \<Rightarrow> s3
                      | Some u \<Rightarrow>
                          say to (RequestedStopQuizz (name (the_user s3 u)))
                            (upd_user u (\<lambda>r. r\<lparr>quizzStopped := quizzStopped r + 1\<rparr>) s3));
                s5 = (if continuousNoAnswerCount s4 \<ge> continuousNoAnswer (options s4)
                      then say to StoppingQuizzForInactivity s4
                      else say to StoppingQuizz s4)
            in saveUserlist s5))
      else s)"

subsection \<open>game (lines 113-146)\<close>

text \<open>The selection of \<^verbatim>\<open>nextQuestion\<close>: a forced question is an object, hence truthy;
  without one the policy is asked.\<close>

definition select_question :: "Env \<Rightarrow> Question option \<Rightarrow> Session \<Rightarrow> Question option \<times> Session" where
  "select_question e forcedQuestion s =
     (case forcedQuestion of
        None \<Rightarrow> (getNextQuestion e (selections s) (questions s),
                 s\<lparr>selections := Suc (selections s)\<rparr>)
      | Some q \<Rightarrow> (Some q, s))"

definition schedule_question :: "nick option \<Rightarrow> chan \<Rightarrow> string \<Rightarrow> Question \<Rightarrow> Session \<Rightarrow> Session" where
  "schedule_question user to message nextQuestion s =
     (let s1 = say to (NextQuestionIn (timeBetweenQuestion (options s))) s;
          (h, s2) = setTimeout (NextQuestionCb user to message nextQuestion)
                      (timeBetweenQuestion (options s1)) s1
      in s2\<lparr>nextQuestionTimer := Some h\<rparr>)"

definition game :: "Env \<Rightarrow> nick option \<Rightarrow> chan \<Rightarrow> string \<Rightarrow> Question option \<Rightarrow> Session \<Rightarrow> Session" where
  "game e user to message forcedQuestion s =
     (let (nextQuestion, s1) = select_question e forcedQuestion s
      in case nextQuestion of
           None \<Rightarrow> stopCommand e None to message s1
         | Some q \<Rightarrow>
             if continuousNoAnswerCount s1 < continuousNoAnswer (options s1)
             then schedule_question user to message q s1
             else stopCommand e None to message s1)"

text \<open>The three timer callbacks of \<^verbatim>\<open>game\<close>.  \<^verbatim>\<open>self.currentQuestion.displayAnswer\<close> and
  \<^verbatim>\<open>self.currentQuestion.displayTip\<close> throw when \<^verbatim>\<open>currentQuestion\<close> is \<^verbatim>\<open>null\<close>.\<close>

definition fireNextQuestion :: "nick option \<Rightarrow> chan \<Rightarrow> string \<Rightarrow> Question \<Rightarrow> Session \<Rightarrow> Session" where
  "fireNextQuestion user to message nextQuestion s =
     (let s1 = s\<lparr>currentQuestion := Some nextQuestion\<rparr>;
          s2 = say to (AskQuestion nextQuestion) s1;
          (h1, s3) = setTimeout (TotalCb user to message) (questionDuration (options s2)) s2;
          s4 = s3\<lparr>currentTotalTimer := Some h1\<rparr>;
          (h2, s5) = setTimeout (EndingSoonCb to)
                       (questionDuration (options s4) - timeBeforeTip (options s4)) s4
      in s5\<lparr>currentEndingSoonTimer := Some h2\<rparr>)"

definition fireTotal :: "Env \<Rightarrow> nick option \<Rightarrow> chan \<Rightarrow> string \<Rightarrow> Session \<Rightarrow> error + Session" where
  "fireTotal e user to message s =
     (let s1 = say to NoGoodAnswer s
      in case currentQuestion s1 of
           None \<Rightarrow> Inl TypeError
         | Some q \<Rightarrow>
             (let s2 = say to (DisplayAnswer q) s1;
                  s3 = s2\<lparr>continuousNoAnswerCount := continuousNoAnswerCount s2 + 1\<rparr>;
                  s4 = clearGame s3;
                  s5 = saveUserlist s4
              in Inr (game e user to message None s5)))"

definition fireEndingSoon :: "chan \<Rightarrow> Session \<Rightarrow> error + Session" where
  "fireEndingSoon to s =
     (let s1 = say to (QuestionEndingIn (timeBeforeTip (options s))) s
      in case currentQuestion s1 of
           None \<Rightarrow> Inl TypeError
         | Some q \<Rightarrow> Inr (say to (DisplayTip q) s1))"

subsection \<open>handleAnswer (lines 251-270)\<close>

definition handleAnswer :: "Env \<Rightarrow> nick \<Rightarrow> chan \<Rightarrow> string \<Rightarrow> Session \<Rightarrow> Session" where
  "handleAnswer e user to message s =
     (case currentQuestion s of
        None \<Rightarrow> s
      | Some q \<Rightarrow>
          if isGoodAnswer q message then
            (let s1 = upd_user user incrementPoints s;
                 s2 = upd_user user plusGoodAnswer s1;
                 s3 = say to (GoodAnswer (name (the_user s2 user)) (points (the_user s2 user))) s2;
                 s4 = say to (DisplayAnswer q) s3;
                 s5 = s4\<lparr>continuousNoAnswerCount := 0\<rparr>;
                 s6 = clearGame s5;
                 s7 = saveUserlist s6
             in game e (Some user) to message None s7)
          else upd_user user plusAnswer s)"

subsection \<open>startCommand (lines 281-293) and askQuestionCommand (lines 375-385)\<close>

text \<open>\<^verbatim>\<open>user.name\<close> throws on a \<^verbatim>\<open>null\<close> user, after \<^verbatim>\<open>running\<close> has been set.\<close>

definition startCommand :: "Env \<Rightarrow> nick option \<Rightarrow> chan \<Rightarrow> string \<Rightarrow> bool \<Rightarrow> Session \<Rightarrow> error + Session" where
  "startCommand e user to message noGame s =
     (if running s = False then
        (case user of
           None \<Rightarrow> Inl TypeError
         | Some u \<Rightarrow>
             (let s1 = s\<lparr>running := True\<rparr>;
                  s2 = say to (RequestedStartQuizz (name (the_user s1 u))) s1;
                  s3 = say to StartingQuizz s2;
                  s4 = upd_user u (\<lambda>r. r\<lparr>quizzStarted := quizzStarted r + 1\<rparr>) s3;
                  s5 = s4\<lparr>continuousNoAnswerCount := 0\<rparr>
              in if noGame then Inr s5 else Inr (game e user to message None s5)))
      else Inr s)"

text \<open>
  \<^verbatim>\<open>self.questions[args[0] - 1]\<close>.  Without an argument \<^verbatim>\<open>args[0]\<close> is \<^verbatim>\<open>undefined\<close> and
  \<^verbatim>\<open>undefined - 1\<close> is \<^verbatim>\<open>NaN\<close>; with one, the language converts the string to a number
  and subtracts.  The element is \<^verbatim>\<open>undefined\<close> when the result is no array index and when
  the index is outside the pool.
\<close>

definition questionAt :: "Env \<Rightarrow> Question list \<Rightarrow> string list \<Rightarrow> Question option" where
  "questionAt e qs args =
     (case args of
        [] \<Rightarrow> None
      | a # rest \<Rightarrow>
          (case arrayIndex e a of
             None \<Rightarrow> None
           | Some i \<Rightarrow> if i < length qs then Some (qs ! i) else None))"

definition askQuestionCommand ::
  "Env \<Rightarrow> nick option \<Rightarrow> chan \<Rightarrow> string \<Rightarrow> string list \<Rightarrow> Session \<Rightarrow> error + Session" where
  "askQuestionCommand e user to message args s =
     (if refused e user to then Inr s
      else
        (case (if running s then Inr s else startCommand e user to message True s) of
           Inl err \<Rightarrow> Inl err
         | Inr s1 \<Rightarrow>
             Inr (game e user to message (questionAt e (questions s1) args) (clearGame s1))))"

subsection \<open>The dispatcher (lines 209-243) and the message listener (lines 70-78)\<close>

fun join :: "string list \<Rightarrow> string" where
  "join [] = []"
| "join [a] = a"
| "join (a # b # rest) = a @ '' '' @ join (b # rest)"

definition sayCommand :: "Env \<Rightarrow> nick option \<Rightarrow> chan \<Rightarrow> string \<Rightarrow> string list \<Rightarrow> Session \<Rightarrow> Session" where
  "sayCommand e user to message args s =
     (if refused e user to then s else say to (Said (join args)) s)"

text \<open>
  \<^verbatim>\<open>!lang\<close>, \<^verbatim>\<open>!stats\<close>, \<^verbatim>\<open>!top\<close>, \<^verbatim>\<open>!help\<close> and \<^verbatim>\<open>!test\<close> read the user list and the
  catalogue of the localisation and reply; they assign no field of the session, and
  their replies are left out of \<open>said\<close>.
\<close>

definition handleCommand :: "Env \<Rightarrow> nick \<Rightarrow> chan \<Rightarrow> string \<Rightarrow> Session \<Rightarrow> error + Session" where
  "handleCommand e user to message s =
     (let command = hd (split_on (CHR '' '') message);
          args = tl (split_on (CHR '' '') message)
      in if command = ''!start'' then startCommand e (Some user) to message False s
         else if command = ''!stop'' then Inr (stopCommand e (Some user) to message s)
         else if command = ''!ask'' then askQuestionCommand e (Some user) to message args s
         else if command = ''!say'' then Inr (sayCommand e (Some user) to message args s)
         else Inr s)"

definition onMessage :: "Env \<Rightarrow> nick \<Rightarrow> chan \<Rightarrow> string \<Rightarrow> Session \<Rightarrow> error + Session" where
  "onMessage e from to message s =
     (let s1 = getUser from to s
      in if from \<noteq> botName e \<and> length message > 1 \<and> hd message = CHR ''!''
         then handleCommand e from to message s1
         else if running s1 \<and> currentQuestion s1 \<noteq> None \<and> from \<noteq> botName e
         then Inr (handleAnswer e from to message s1)
         else Inr s1)"

subsection \<open>The event loop\<close>

text \<open>
  One thread runs the listener and the timer callbacks, one at a time.  \<open>Fire\<close> lets
  time pass until the pending timer that is due first expires (the one armed first
  among equals) and runs its callback; \<open>Wait d\<close> lets time pass, up to the moment the
  next timer is due; \<open>Message\<close> is a chat line arriving now.
\<close>

datatype event = Message nick chan string | Fire | Wait int

fun earliest :: "timer list \<Rightarrow> timer option" where
  "earliest [] = None"
| "earliest (t # ts) =
     (case earliest ts of
        None \<Rightarrow> Some t
      | Some u \<Rightarrow> if due u < due t then Some u else Some t)"

definition fire :: "Env \<Rightarrow> timer \<Rightarrow> Session \<Rightarrow> error + Session" where
  "fire e t s =
     (let s1 = s\<lparr>timers := filter (\<lambda>u. handle u \<noteq> handle t) (timers s),
                 now := max (now s) (due t)\<rparr>
      in case action t of
           NextQuestionCb user to message q \<Rightarrow> Inr (fireNextQuestion user to message q s1)
         | TotalCb user to message \<Rightarrow> fireTotal e user to message s1
         | EndingSoonCb to \<Rightarrow> fireEndingSoon to s1)"

definition step :: "Env \<Rightarrow> event \<Rightarrow> Session \<Rightarrow> error + Session" where
  "step e ev s =
     (case ev of
        Message from to message \<Rightarrow> onMessage e from to message s
      | Fire \<Rightarrow> (case earliest (timers s) of None \<Rightarrow> Inr s | Some t \<Rightarrow> fire e t s)
      | Wait d \<Rightarrow>
          (case earliest (timers s) of
             None \<Rightarrow> Inr (s\<lparr>now := now s + max 0 d\<rparr>)
           | Some t \<Rightarrow> Inr (s\<lparr>now := max (now s) (min (now s + max 0 d) (due t))\<rparr>)))"

text \<open>An uncaught exception ends the process: the run stops at the first error.\<close>

fun run :: "Env \<Rightarrow> event list \<Rightarrow> Session \<Rightarrow> error + Session" where
  "run e [] s = Inr s"
| "run e (ev # evs) s =
     (case step e ev s of
        Inl err \<Rightarrow> Inl err
      | Inr s1 \<Rightarrow> run e evs s1)"

subsection \<open>The phases of the question cycle\<close>

text \<open>
  Which timers are pending in each phase: none when the session is idle; the
  next-question timer the session holds while it waits for the next question; the
  resolution timer it holds, and until it has fired the tip timer it holds, while a
  question is active.
\<close>

fun is_next :: "callback \<Rightarrow> bool" where
  "is_next (NextQuestionCb user to message q) = True"
| "is_next (TotalCb user to message) = False"
| "is_next (EndingSoonCb to) = False"

fun is_total :: "callback \<Rightarrow> bool" where
  "is_total (NextQuestionCb user to message q) = False"
| "is_total (TotalCb user to message) = True"
| "is_total (EndingSoonCb to) = False"

fun is_tip :: "callback \<Rightarrow> bool" where
  "is_tip (NextQuestionCb user to message q) = False"
| "is_tip (TotalCb user to message) = False"
| "is_tip (EndingSoonCb to) = True"

text \<open>\<open>phase_ok r q ts T E N\<close>: the pending timers \<open>ts\<close> fit the phase given by
  \<^verbatim>\<open>running\<close> and \<^verbatim>\<open>currentQuestion\<close>, and are the ones whose handles the session holds in
  \<^verbatim>\<open>currentTotalTimer\<close>, \<^verbatim>\<open>currentEndingSoonTimer\<close> and \<^verbatim>\<open>nextQuestionTimer\<close>.\<close>

fun phase_ok ::
  "bool \<Rightarrow> Question option \<Rightarrow> timer list \<Rightarrow> nat option \<Rightarrow> nat option \<Rightarrow> nat option \<Rightarrow> bool" where
  "phase_ok r None [] T E N = (\<not> r)"
| "phase_ok r None [t] T E N = (r \<and> N = Some (handle t) \<and> is_next (action t))"
| "phase_ok r None (t # u # ts) T E N = False"
| "phase_ok r (Some q) [] T E N = False"
| "phase_ok r (Some q) [t] T E N = (r \<and> T = Some (handle t) \<and> is_total (action t))"
| "phase_ok r (Some q) [t, u] T E N =
     (r \<and> T = Some (handle t) \<and> is_total (action t) \<and>
      E = Some (handle u) \<and> is_tip (action u) \<and> handle t \<noteq> handle u)"
| "phase_ok r (Some q) (t # u # v # ts) T E N = False"

definition tidy :: "Session \<Rightarrow> bool" where
  "tidy s =
     phase_ok (running s) (currentQuestion s) (timers s)
       (currentTotalTimer s) (currentEndingSoonTimer s) (nextQuestionTimer s)"

text \<open>
  The forced-question command arriving while the session is running with no active
  question, that is, while a next-question timer is pending.
\<close>

definition hazard :: "event \<Rightarrow> Session \<Rightarrow> bool" where
  "hazard ev s =
     (case ev of
        Message from to message \<Rightarrow>
          hd (split_on (CHR '' '') message) = ''!ask'' \<and> running s \<and> currentQuestion s = None
      | Fire \<Rightarrow> False
      | Wait d \<Rightarrow> False)"

text \<open>A run in which that never happens, checked event by event along the run.\<close>

fun hazard_free :: "Env \<Rightarrow> event list \<Rightarrow> Session \<Rightarrow> bool" where
  "hazard_free e [] s = True"
| "hazard_free e (ev # evs) s =
     (if hazard ev s then False
      else (case step e ev s of
              Inl err \<Rightarrow> True
            | Inr s1 \<Rightarrow> hazard_free e evs s1))"

subsection \<open>JavaScript's conversion of a string to an array index\<close>

text \<open>
  The number a string converts to (\<^verbatim>\<open>StringToNumber\<close>): \<open>Finite m x\<close> is \<open>m\<close> times ten
  to the power \<open>x\<close>, before it is rounded to a double; \<open>Infinite\<close> is either infinity.
\<close>

datatype js_number = NaN | Infinite | Finite int int

text \<open>The value of a digit in a radix, for the digits 0 to 9, a to f and A to F.\<close>

definition radix_digit :: "nat \<Rightarrow> char \<Rightarrow> nat option" where
  "radix_digit b c =
     (let n = (of_char c :: nat);
          v = (if 48 \<le> n \<and> n \<le> 57 then Some (n - 48)
               else if 97 \<le> n \<and> n \<le> 102 then Some (n - 87)
               else if 65 \<le> n \<and> n \<le> 70 then Some (n - 55)
               else None)
      in case v of None \<Rightarrow> None | Some d \<Rightarrow> if d < b then Some d else None)"

fun radix_from :: "nat \<Rightarrow> int \<Rightarrow> string \<Rightarrow> int option" where
  "radix_from b acc [] = Some acc"
| "radix_from b acc (c # cs) =
     (case radix_digit b c of
        None \<Rightarrow> None
      | Some d \<Rightarrow> radix_from b (int b * acc + int d) cs)"

text \<open>One digit at least, and digits only.\<close>

definition digits_value :: "nat \<Rightarrow> string \<Rightarrow> int option" where
  "digits_value b ds = (if ds = [] then None else radix_from b 0 ds)"

definition is_digit :: "char \<Rightarrow> bool" where
  "is_digit c = (radix_digit 10 c \<noteq> None)"

text \<open>What follows \<^verbatim>\<open>0x\<close>, \<^verbatim>\<open>0o\<close> or \<^verbatim>\<open>0b\<close>.\<close>

definition radix_literal :: "nat \<Rightarrow> string \<Rightarrow> js_number" where
  "radix_literal b ds =
     (case digits_value b ds of None \<Rightarrow> NaN | Some n \<Rightarrow> Finite n 0)"

text \<open>The digits of an exponent, with their sign.\<close>

definition signed_integer :: "string \<Rightarrow> int option" where
  "signed_integer r =
     (case r of
        [] \<Rightarrow> None
      | c # cs \<Rightarrow>
          if c = CHR ''+'' then digits_value 10 cs
          else if c = CHR ''-'' then map_option uminus (digits_value 10 cs)
          else digits_value 10 r)"

text \<open>The rest of a decimal literal after its digits: nothing, or an exponent part.\<close>

definition exponent_part :: "string \<Rightarrow> int option" where
  "exponent_part r =
     (case r of
        [] \<Rightarrow> Some 0
      | c # cs \<Rightarrow> if c = CHR ''e'' \<or> c = CHR ''E'' then signed_integer cs else None)"

text \<open>
  A decimal literal without its sign: \<^verbatim>\<open>Infinity\<close>, or digits with an optional fraction
  and an optional exponent, where the digits before or after the point may be missing
  but not both.
\<close>

definition unsigned_decimal :: "string \<Rightarrow> js_number" where
  "unsigned_decimal r =
     (if r = ''Infinity'' then Infinite
      else
        (let ip = takeWhile is_digit r;
             r1 = dropWhile is_digit r;
             dot = (r1 \<noteq> [] \<and> hd r1 = CHR ''.'');
             fp = (if dot then takeWhile is_digit (tl r1) else []);
             r2 = (if dot then dropWhile is_digit (tl r1) else r1)
         in case digits_value 10 (ip @ fp) of
              None \<Rightarrow> NaN
            | Some m \<Rightarrow>
                (case exponent_part r2 of
                   None \<Rightarrow> NaN
                 | Some x \<Rightarrow> Finite m (x - int (length fp)))))"

definition negated :: "js_number \<Rightarrow> js_number" where
  "negated v = (case v of NaN \<Rightarrow> NaN | Infinite \<Rightarrow> Infinite | Finite m x \<Rightarrow> Finite (- m) x)"

text \<open>
  White space around the literal is dropped and the empty string is 0; a literal with
  a radix prefix takes no sign; every string that is no literal is \<^verbatim>\<open>NaN\<close>.
\<close>

definition string_to_number :: "string \<Rightarrow> js_number" where
  "string_to_number a =
     (let t = trim a
      in if t = [] then Finite 0 0
         else if take 2 t = ''0x'' \<or> take 2 t = ''0X'' then radix_literal 16 (drop 2 t)
         else if take 2 t = ''0o'' \<or> take 2 t = ''0O'' then radix_literal 8 (drop 2 t)
         else if take 2 t = ''0b'' \<or> take 2 t = ''0B'' then radix_literal 2 (drop 2 t)
         else if hd t = CHR ''+'' then unsigned_decimal (tl t)
         else if hd t = CHR ''-'' then negated (unsigned_decimal (tl t))
         else unsigned_decimal t)"

text \<open>The position of the leading bit of a positive number.\<close>

function ilog2 :: "int \<Rightarrow> nat" where
  "ilog2 n = (if n < 2 then 0 else Suc (ilog2 (n div 2)))"
  by pat_completeness auto
termination
  by (relation "measure nat") auto

declare ilog2.simps [simp del]

text \<open>
  \<open>rounds_to n d k\<close>: the double nearest to the fraction \<open>n / d\<close> is the integer \<open>k\<close>, for
  \<open>1 \<le> k < 2^32\<close>.  The doubles next to \<open>k\<close> are \<open>2^(x - 52)\<close> above it and as much below
  it, or half as much below a power of two, where \<open>2^x\<close> is the leading bit of \<open>k\<close>; what
  lies half-way rounds to \<open>k\<close>, whose last bit is 0.
\<close>

definition rounds_to :: "int \<Rightarrow> int \<Rightarrow> int \<Rightarrow> bool" where
  "rounds_to n d k =
     (let x = ilog2 k;
          a = 53 - x;
          b = (if k = 2 ^ x then 54 - x else 53 - x)
      in n * 2 ^ a \<le> (k * 2 ^ a + 1) * d \<and> (k * 2 ^ b - 1) * d \<le> n * 2 ^ b)"

text \<open>
  \<^verbatim>\<open>a - 1\<close> as an array index: the string is converted, rounded to a double, and 1 is
  subtracted, which is exact on the integers in reach; an array has fewer than \<open>2^32\<close>
  elements.
\<close>

definition js_arrayIndex :: "string \<Rightarrow> nat option" where
  "js_arrayIndex a =
     (case string_to_number a of
        NaN \<Rightarrow> None
      | Infinite \<Rightarrow> None
      | Finite m x \<Rightarrow>
          (let n = (if 0 \<le> x then m * 10 ^ nat x else m);
               d = (if 0 \<le> x then 1 else 10 ^ nat (- x));
               k = (2 * n + d) div (2 * d)
           in if 1 \<le> k \<and> k < 2 ^ 32 \<and> rounds_to n d k then Some (nat (k - 1)) else None))"

subsection \<open>A concrete bot, for the examples below\<close>

definition ex_q1 :: Question where
  "ex_q1 = \<lparr>question = ''2+2?'', answers = [Some ''4'']\<rparr>"

definition ex_q2 :: Question where
  "ex_q2 = \<lparr>question = ''Capital of France?'', answers = [Some ''Paris'']\<rparr>"

text \<open>The bot is \<open>quizzbot\<close>, the only operator is \<open>bob\<close>, the selection policy hands
  out the pool in order, once, and the arithmetic is JavaScript's.\<close>

definition ex_env :: Env where
  "ex_env =
     \<lparr> botName = ''quizzbot'',
       isOp = (\<lambda>n c. n = ''bob''),
       getNextQuestion = (\<lambda>n qs. if n < length qs then Some (qs ! n) else None),
       arrayIndex = js_arrayIndex \<rparr>"

definition ex_options :: "int option \<Rightarrow> int option \<Rightarrow> RawOptions" where
  "ex_options d t =
     \<lparr> opt_questionDuration = d, opt_timeBetweenQuestion = None, opt_timeBeforeTip = t,
       opt_nickServPassword = None, opt_continuousNoAnswer = None \<rparr>"

definition ex_bot :: Session where
  "ex_bot = new_QuizzBot (ex_options None None) [ex_q1, ex_q2]"

definition ex_fs :: FileSystem where
  "ex_fs =
     \<lparr> required = (\<lambda>f. None),
       readFileSync = (\<lambda>f. if f = ''bank.txt''
                             then Some (''no delimiter'' @ [CHR 0x0A] @ ''2+2?'' @ [CHR 0x5C] @ '' 4 '')
                             else None) \<rparr>"

text \<open>A running session in which the first question is active and nobody is registered.\<close>

definition ex_active :: Session where
  "ex_active = ex_bot\<lparr>running := True, currentQuestion := Some ex_q1, selections := 1\<rparr>"


text \<open>The operator forces question 1 twice in a row, stops the game, and the timer that
  is due first fires.\<close>

definition ex_orphan_trace :: "event list" where
  "ex_orphan_trace =
     [Message ''bob'' ''#quizz'' ''!ask 1'', Message ''bob'' ''#quizz'' ''!ask 1'',
      Message ''bob'' ''#quizz'' ''!stop'', Fire]"

text \<open>The operator forces question 1 twice in a row, both next-question timers fire, and
  alice gives the right answer.\<close>

definition ex_stale_trace :: "event list" where
  "ex_stale_trace =
     [Message ''bob'' ''#quizz'' ''!ask 1'', Message ''bob'' ''#quizz'' ''!ask 1'',
      Fire, Fire, Message ''alice'' ''#quizz'' ''4'']"



text \<open>A game of two questions, both answered by alice as soon as they are asked.\<close>

definition ex_last_answer_trace :: "event list" where
  "ex_last_answer_trace =
     [Message ''alice'' ''#quizz'' ''!start'', Fire, Message ''alice'' ''#quizz'' ''4'',
      Fire, Message ''alice'' ''#quizz'' '' paris '']"

section \<open>Properties\<close>

subsection \<open>Options\<close>

lemma effective_questionDuration_floor: "10000 \<le> effective_questionDuration opts"
  by (simp add: effective_questionDuration_def js_or_def split: option.splits)

lemma constructor_options_simps:
  "questionDuration (constructor_options opts) = effective_questionDuration opts"
  "timeBeforeTip (constructor_options opts) = effective_timeBeforeTip opts"
  "timeBetweenQuestion (constructor_options opts) = js_or (opt_timeBetweenQuestion opts) 15000"
  "continuousNoAnswer (constructor_options opts) = js_or (opt_continuousNoAnswer opts) 8"
  by (simp_all add: constructor_options_def)

text \<open>
  C8.  A configured questionDuration strictly below 10000 milliseconds gives the
  effective question duration 10000.
\<close>

theorem questionDuration_below_floor:
  assumes "opt_questionDuration opts = Some d" and "d < 10000"
  shows "questionDuration (constructor_options opts) = 10000"
  using assms by (simp add: constructor_options_simps effective_questionDuration_def)

theorem questionDuration_below_floor_witness:
  "opt_questionDuration (ex_options (Some 5000) None) = Some 5000 \<and> (5000::int) < 10000 \<and>
   questionDuration (constructor_options (ex_options (Some 5000) None)) = 10000"
  using questionDuration_below_floor [of "ex_options (Some 5000) None" 5000]
  by (simp add: ex_options_def)

text \<open>
  C7, as stated: the effective tip-lead time is at most half the effective question
  duration in every configuration.  It fails for a configured timeBeforeTip of 20000
  with a questionDuration of 25000: the value is kept, since it does not exceed the
  duration.
\<close>

theorem timeBeforeTip_half_counterexample:
  "\<not> 2 * timeBeforeTip (constructor_options (ex_options (Some 25000) (Some 20000)))
       \<le> questionDuration (constructor_options (ex_options (Some 25000) (Some 20000)))"
  by (simp add: constructor_options_simps effective_timeBeforeTip_def
      effective_questionDuration_def js_or_def ex_options_def)

text \<open>
  C7, amended.  A configured timeBeforeTip above the effective question duration is
  replaced by the floor of half that duration; one that is not above it is kept (10000
  when it is absent or 0); and in every configuration the effective tip-lead time is at
  most the effective question duration.
\<close>

theorem timeBeforeTip_clamp:
  "(opt_timeBeforeTip opts = Some t \<longrightarrow>
      (if t > questionDuration (constructor_options opts)
       then timeBeforeTip (constructor_options opts)
              = questionDuration (constructor_options opts) div 2
       else timeBeforeTip (constructor_options opts) = js_or (Some t) 10000)) \<and>
   (opt_timeBeforeTip opts = None \<longrightarrow> timeBeforeTip (constructor_options opts) = 10000) \<and>
   timeBeforeTip (constructor_options opts) \<le> questionDuration (constructor_options opts)"
proof -
  have floor: "10000 \<le> effective_questionDuration opts"
    by (rule effective_questionDuration_floor)
  then have half: "effective_questionDuration opts div 2 \<noteq> 0"
    by linarith
  show ?thesis
    using floor half
    by (auto simp add: constructor_options_simps effective_timeBeforeTip_def js_or_def
        split: option.splits)
qed

theorem timeBeforeTip_clamp_witness:
  "opt_timeBeforeTip (ex_options (Some 20000) (Some 30000)) = Some 30000 \<and>
   30000 > questionDuration (constructor_options (ex_options (Some 20000) (Some 30000))) \<and>
   timeBeforeTip (constructor_options (ex_options (Some 20000) (Some 30000))) = 10000 \<and>
   timeBeforeTip (constructor_options (ex_options (Some 20000) (Some 30000)))
     \<le> questionDuration (constructor_options (ex_options (Some 20000) (Some 30000)))"
  using timeBeforeTip_clamp [of "ex_options (Some 20000) (Some 30000)" 30000]
  by (simp add: constructor_options_simps effective_questionDuration_def js_or_def
      ex_options_def)

subsection \<open>The conversion of the ask command's argument\<close>

text \<open>The forms of a number that select the second question, and strings that select
  none.\<close>

lemma js_arrayIndex_examples:
  "map js_arrayIndex [''2'', ''2.0'', ''0x2'', ''2e0'', ''+2'', ''002'', ''.2e1'', ''0b10'',
                      ''1.9999999999999999999'', [CHR 0x09, CHR ''2'']]
     = replicate 10 (Some 1)"
  "map js_arrayIndex [[], ''0'', ''-1'', ''1.5'', ''abc'', ''2x'', ''Infinity'', ''0x'', ''.'',
                      ''-0x2'', ''1e'', ''1.99999'']
     = replicate 12 None"
  by code_simp+

subsection \<open>The question bank\<close>

lemma split_on_nonempty: "split_on sep s \<noteq> []"
  by (induction s) (auto split: list.splits)

lemma split_on_no_separator: "sep \<notin> set s \<Longrightarrow> split_on sep s = [s]"
  by (induction s) auto

lemma question_of_line_no_delimiter:
  "CHR 0x5C \<notin> set line \<Longrightarrow> question_of_line line = \<lparr>question = line, answers = [None]\<rparr>"
  by (simp add: question_of_line_def split_on_no_separator)

text \<open>
  C9, as stated: a line without the backslash delimiter contributes no question.  The
  bank of two lines, the first without a delimiter, loads as two questions, the first
  with the whole line as its prompt and an undefined answer.
\<close>

theorem loadQuestions_skips_counterexample:
  "loadQuestions ex_fs [''bank.txt''] =
     Inr [\<lparr>question = ''no delimiter'', answers = [None]\<rparr>,
          \<lparr>question = ''2+2?'', answers = [Some ''4'']\<rparr>]"
  by (simp add: load_file_def file_ext_def ex_fs_def load_txt_def question_of_line_def
      trim_def is_space_def)

text \<open>
  C9, amended.  Loading a text bank pushes one question for every line of the file, in
  order, and never stops at a line: a line without the backslash delimiter gives the
  question whose prompt is the whole line and whose single answer is undefined.
\<close>

theorem load_txt_every_line:
  "length (load_txt content) = length (split_lines content) \<and>
   (\<forall>i < length (split_lines content).
      CHR 0x5C \<notin> set (split_lines content ! i) \<longrightarrow>
      load_txt content ! i = \<lparr>question = split_lines content ! i, answers = [None]\<rparr>)"
  by (simp add: load_txt_def question_of_line_no_delimiter)

theorem load_txt_every_line_witness:
  "length (load_txt ''hello'') = 1 \<and> CHR 0x5C \<notin> set ''hello'' \<and>
   load_txt ''hello'' ! 0 = \<lparr>question = ''hello'', answers = [None]\<rparr>"
  using load_txt_every_line [of "''hello''"]
  by simp

subsection \<open>The session's primitives\<close>

lemma clearTimeout_eq:
  "clearTimeout h s = s\<lparr>timers := filter (\<lambda>t. Some (handle t) \<noteq> h) (timers s)\<rparr>"
  by (cases h) (simp_all add: clearTimeout_def)

text \<open>\<^verbatim>\<open>clearGame\<close> cancels the tip timer and the resolution timer the session holds, and
  nothing else.\<close>

lemma clearGame_eq:
  "clearGame s =
     s\<lparr>currentQuestion := None,
       timers := filter (\<lambda>t. Some (handle t) \<noteq> currentEndingSoonTimer s \<and>
                            Some (handle t) \<noteq> currentTotalTimer s) (timers s)\<rparr>"
  by (simp add: clearGame_def clearTimeout_eq Let_def)

lemmas prim_eqs = say_def saveUserlist_def setTimeout_def clearTimeout_eq upd_user_def
  getUser_def clearGame_eq the_user_def

lemma getUser_fields:
  "running (getUser n to s) = running s"
  "currentQuestion (getUser n to s) = currentQuestion s"
  "timers (getUser n to s) = timers s"
  "said (getUser n to s) = said s"
  "continuousNoAnswerCount (getUser n to s) = continuousNoAnswerCount s"
  "saved (getUser n to s) = saved s"
  "selections (getUser n to s) = selections s"
  "the_user (getUser n to s) m = the_user s m"
  by (simp_all add: getUser_def upd_user_def the_user_def split: option.splits)


text \<open>The internal stop of a running session, field by field.\<close>

lemma stopCommand_null_running:
  "running s \<Longrightarrow>
   stopCommand e None to message s =
     s\<lparr>running := False, currentQuestion := None,
       timers := filter (\<lambda>t. Some (handle t) \<noteq> currentEndingSoonTimer s \<and>
                            Some (handle t) \<noteq> currentTotalTimer s \<and>
                            Some (handle t) \<noteq> nextQuestionTimer s) (timers s),
       said := said s @ [(to, if continuousNoAnswerCount s \<ge> continuousNoAnswer (options s)
                              then StoppingQuizzForInactivity else StoppingQuizz)],
       saved := Suc (saved s)\<rparr>"
  by (simp add: stopCommand_def refused_def prim_eqs Let_def)

lemma schedule_question_eq:
  "schedule_question user to message q s =
     s\<lparr>said := said s @ [(to, NextQuestionIn (timeBetweenQuestion (options s)))],
       timers := timers s @ [\<lparr>handle = nextHandle s,
                               due = now s + timeout_delay (timeBetweenQuestion (options s)),
                               action = NextQuestionCb user to message q\<rparr>],
       nextHandle := Suc (nextHandle s),
       nextQuestionTimer := Some (nextHandle s)\<rparr>"
  by (simp add: schedule_question_def prim_eqs Let_def)

lemma game_unforced:
  "game e user to message None s =
     (case getNextQuestion e (selections s) (questions s) of
        None \<Rightarrow> stopCommand e None to message (s\<lparr>selections := Suc (selections s)\<rparr>)
      | Some q \<Rightarrow>
          if continuousNoAnswerCount s < continuousNoAnswer (options s)
          then schedule_question user to message q (s\<lparr>selections := Suc (selections s)\<rparr>)
          else stopCommand e None to message (s\<lparr>selections := Suc (selections s)\<rparr>))"
  by (simp add: game_def select_question_def split: option.splits)

lemma game_forced:
  "game e user to message (Some q) s =
     (if continuousNoAnswerCount s < continuousNoAnswer (options s)
      then schedule_question user to message q s
      else stopCommand e None to message s)"
  by (simp add: game_def select_question_def)



lemma ex_bot_limit: "continuousNoAnswer (options ex_bot) = 8"
  by (simp add: ex_bot_def new_QuizzBot_def constructor_options_simps js_or_def ex_options_def)

subsection \<open>The message listener\<close>

text \<open>
  C10.  A message whose sender is the bot's name is neither dispatched as a command nor
  evaluated as an answer, whatever its content and the state: the listener only looks
  the sender up in the user list.  A message that does not start with \<open>!\<close>, or of length
  at most 1, is never dispatched as a command, and is evaluated as an answer only while
  running is true and a question is active (and the sender is not the bot).
\<close>

theorem listener_dispatch:
  "(from = botName e \<longrightarrow> onMessage e from to message s = Inr (getUser from to s)) \<and>
   (\<not> (length message > 1 \<and> hd message = CHR ''!'') \<longrightarrow>
      onMessage e from to message s =
        (if running s \<and> currentQuestion s \<noteq> None \<and> from \<noteq> botName e
         then Inr (handleAnswer e from to message (getUser from to s))
         else Inr (getUser from to s)))"
  by (auto simp add: onMessage_def Let_def getUser_fields)

theorem listener_dispatch_witness:
  "onMessage ex_env ''quizzbot'' ''#quizz'' ''!stop'' ex_active
     = Inr (getUser ''quizzbot'' ''#quizz'' ex_active) \<and>
   onMessage ex_env ''alice'' ''#quizz'' ''4'' ex_bot = Inr (getUser ''alice'' ''#quizz'' ex_bot)"
proof -
  have own: "''quizzbot'' = botName ex_env"
    by (simp add: ex_env_def)
  have plain: "\<not> (length ''4'' > 1 \<and> hd ''4'' = CHR ''!'')" and idle: "\<not> running ex_bot"
    by (simp_all add: ex_bot_def new_QuizzBot_def)
  from listener_dispatch [of "''quizzbot''" ex_env "''#quizz''" "''!stop''" ex_active] own
  have "onMessage ex_env ''quizzbot'' ''#quizz'' ''!stop'' ex_active
          = Inr (getUser ''quizzbot'' ''#quizz'' ex_active)"
    by blast
  moreover
  from listener_dispatch [of "''alice''" ex_env "''#quizz''" "''4''" ex_bot] plain idle
  have "onMessage ex_env ''alice'' ''#quizz'' ''4'' ex_bot = Inr (getUser ''alice'' ''#quizz'' ex_bot)"
    by simp
  ultimately show ?thesis
    by blast
qed

subsection \<open>The question cycle ends the game\<close>




subsection \<open>Starting a game\<close>

lemma startCommand_idle:
  assumes "\<not> running s"
  shows "\<exists>s1. startCommand e (Some u) to message True s = Inr s1 \<and>
              startCommand e (Some u) to message False s = Inr (game e (Some u) to message None s1) \<and>
              running s1 \<and> continuousNoAnswerCount s1 = 0 \<and>
              said s1 = said s @ [(to, RequestedStartQuizz (name (the_user s u))), (to, StartingQuizz)] \<and>
              quizzStarted (the_user s1 u) = quizzStarted (the_user s u) + 1 \<and>
              currentQuestion s1 = currentQuestion s \<and> timers s1 = timers s \<and>
              questions s1 = questions s \<and> selections s1 = selections s \<and> options s1 = options s"
  using assms by (simp add: startCommand_def prim_eqs Let_def)

text \<open>A \<^verbatim>\<open>null\<close> requester makes \<^verbatim>\<open>user.name\<close> throw; no caller passes one.\<close>

lemma startCommand_null_requester:
  "\<not> running s \<Longrightarrow> startCommand e None to message noGame s = Inl TypeError"
  by (simp add: startCommand_def)

text \<open>
  C4, as stated: a non-null requester must be a channel operator for start to have an
  effect.  In the example alice is not an operator, and her start sets running, announces
  the start and enters the question cycle.
\<close>

theorem startCommand_operator_counterexample:
  "\<not> isOp ex_env ''alice'' ''#quizz'' \<and>
   \<not> isl (startCommand ex_env (Some ''alice'') ''#quizz'' ''!start'' False ex_bot) \<and>
   running (projr (startCommand ex_env (Some ''alice'') ''#quizz'' ''!start'' False ex_bot)) \<and>
   said (projr (startCommand ex_env (Some ''alice'') ''#quizz'' ''!start'' False ex_bot)) =
     [(''#quizz'', RequestedStartQuizz ''alice''), (''#quizz'', StartingQuizz),
      (''#quizz'', NextQuestionIn 15000)]"
  by code_simp

text \<open>
  C4, amended.  start is effective only from the Idle state: in a running session it
  changes nothing.  From Idle it makes no operator check: for every requester it sets
  running, announces the start naming the requester, counts the start for the requester,
  resets consecutiveNoAnswerCount to 0 and enters the question cycle (which the forced
  question command skips, to run it itself).
\<close>

theorem startCommand_effect:
  "(running s \<longrightarrow> startCommand e user to message noGame s = Inr s) \<and>
   (\<not> running s \<longrightarrow>
      (\<exists>s1. startCommand e (Some u) to message True s = Inr s1 \<and>
            startCommand e (Some u) to message False s = Inr (game e (Some u) to message None s1) \<and>
            running s1 \<and> continuousNoAnswerCount s1 = 0 \<and>
            said s1 = said s @ [(to, RequestedStartQuizz (name (the_user s u))), (to, StartingQuizz)] \<and>
            quizzStarted (the_user s1 u) = quizzStarted (the_user s u) + 1 \<and>
            currentQuestion s1 = currentQuestion s \<and> timers s1 = timers s))"
proof (cases "running s")
  case True
  then show ?thesis
    by (simp add: startCommand_def)
next
  case False
  with startCommand_idle [OF False, of e u to message] show ?thesis
    by auto
qed

theorem startCommand_effect_witness:
  "\<not> running ex_bot \<and> \<not> isOp ex_env ''alice'' ''#quizz'' \<and>
   (\<exists>s1. startCommand ex_env (Some ''alice'') ''#quizz'' ''!start'' True ex_bot = Inr s1 \<and>
         startCommand ex_env (Some ''alice'') ''#quizz'' ''!start'' False ex_bot =
           Inr (game ex_env (Some ''alice'') ''#quizz'' ''!start'' None s1) \<and>
         running s1 \<and> continuousNoAnswerCount s1 = 0)"
proof -
  have idle: "\<not> running ex_bot"
    by (simp add: ex_bot_def new_QuizzBot_def)
  have plain: "\<not> isOp ex_env ''alice'' ''#quizz''"
    by (simp add: ex_env_def)
  from startCommand_effect [of ex_bot ex_env "Some ''alice''" "''#quizz''" "''!start''" True "''alice''"]
    idle
  have "\<exists>s1. startCommand ex_env (Some ''alice'') ''#quizz'' ''!start'' True ex_bot = Inr s1 \<and>
         startCommand ex_env (Some ''alice'') ''#quizz'' ''!start'' False ex_bot =
           Inr (game ex_env (Some ''alice'') ''#quizz'' ''!start'' None s1) \<and>
         running s1 \<and> continuousNoAnswerCount s1 = 0"
    by blast
  with idle plain show ?thesis
    by blast
qed

subsection \<open>Forcing a question\<close>

text \<open>
  C5, as stated: an operator's ask with an index outside the pool routes to stop and
  presents no question.  With two questions in the pool, \<open>!ask 7\<close> from the operator
  starts the game and schedules the question the selection policy returns.
\<close>

theorem ask_invalid_index_counterexample:
  "isOp ex_env ''bob'' ''#quizz'' \<and> questionAt ex_env (questions ex_bot) [''7''] = None \<and>
   \<not> isl (run ex_env [Message ''bob'' ''#quizz'' ''!ask 7''] ex_bot) \<and>
   running (projr (run ex_env [Message ''bob'' ''#quizz'' ''!ask 7''] ex_bot)) \<and>
   map action (timers (projr (run ex_env [Message ''bob'' ''#quizz'' ''!ask 7''] ex_bot))) =
     [NextQuestionCb (Some ''bob'') ''#quizz'' ''!ask 7'' ex_q1]"
  by code_simp

text \<open>
  C5, amended.  An operator's ask whose argument selects no question of the pool (the
  element \<^verbatim>\<open>self.questions[args[0] - 1]\<close> is undefined, whatever the argument's form) is
  an ask without a forced question: the session is started if it was idle, the active question
  and its two timers are cleared, and the question cycle runs with the normal selection.
  When the selection returns a question and the inactivity limit is not reached, that
  question is scheduled; the cycle routes to stop only otherwise.
\<close>

theorem ask_invalid_index:
  assumes op: "isOp e u to" and invalid: "questionAt e (questions s) args = None"
  shows "\<exists>s1. (if running s then s1 = s else startCommand e (Some u) to message True s = Inr s1) \<and>
           askQuestionCommand e (Some u) to message args s =
             Inr (game e (Some u) to message None (clearGame s1)) \<and>
           (\<forall>q. getNextQuestion e (selections s) (questions s) = Some q \<longrightarrow>
                continuousNoAnswerCount s1 < continuousNoAnswer (options s) \<longrightarrow>
                game e (Some u) to message None (clearGame s1) =
                  schedule_question (Some u) to message q
                    ((clearGame s1)\<lparr>selections := Suc (selections s)\<rparr>))"
proof (cases "running s")
  case True
  have "askQuestionCommand e (Some u) to message args s =
          Inr (game e (Some u) to message None (clearGame s))"
    using True op invalid by (simp add: askQuestionCommand_def refused_def)
  moreover have "\<forall>q. getNextQuestion e (selections s) (questions s) = Some q \<longrightarrow>
                continuousNoAnswerCount s < continuousNoAnswer (options s) \<longrightarrow>
                game e (Some u) to message None (clearGame s) =
                  schedule_question (Some u) to message q
                    ((clearGame s)\<lparr>selections := Suc (selections s)\<rparr>)"
    by (simp add: game_unforced clearGame_eq)
  ultimately show ?thesis
    using True by simp
next
  case False
  from startCommand_idle [OF False, of e u to message]
  obtain s1 where start: "startCommand e (Some u) to message True s = Inr s1"
    and same: "questions s1 = questions s" "selections s1 = selections s" "options s1 = options s"
    by blast
  have "askQuestionCommand e (Some u) to message args s =
          Inr (game e (Some u) to message None (clearGame s1))"
    using False op invalid start same by (simp add: askQuestionCommand_def refused_def)
  moreover have "\<forall>q. getNextQuestion e (selections s) (questions s) = Some q \<longrightarrow>
                continuousNoAnswerCount s1 < continuousNoAnswer (options s) \<longrightarrow>
                game e (Some u) to message None (clearGame s1) =
                  schedule_question (Some u) to message q
                    ((clearGame s1)\<lparr>selections := Suc (selections s)\<rparr>)"
    using same by (simp add: game_unforced clearGame_eq)
  ultimately show ?thesis
    using False start by auto
qed

theorem ask_invalid_index_witness:
  "isOp ex_env ''bob'' ''#quizz'' \<and> questionAt ex_env (questions ex_bot) [''7''] = None \<and>
   (\<exists>s1. startCommand ex_env (Some ''bob'') ''#quizz'' ''!ask 7'' True ex_bot = Inr s1 \<and>
         askQuestionCommand ex_env (Some ''bob'') ''#quizz'' ''!ask 7'' [''7''] ex_bot =
           Inr (game ex_env (Some ''bob'') ''#quizz'' ''!ask 7'' None (clearGame s1)))"
proof -
  have op: "isOp ex_env ''bob'' ''#quizz''"
    by (simp add: ex_env_def)
  have invalid: "questionAt ex_env (questions ex_bot) [''7''] = None"
    by code_simp
  have idle: "\<not> running ex_bot"
    by (simp add: ex_bot_def new_QuizzBot_def)
  from ask_invalid_index [OF op invalid, of "''!ask 7''"] idle
  have "\<exists>s1. startCommand ex_env (Some ''bob'') ''#quizz'' ''!ask 7'' True ex_bot = Inr s1 \<and>
         askQuestionCommand ex_env (Some ''bob'') ''#quizz'' ''!ask 7'' [''7''] ex_bot =
           Inr (game ex_env (Some ''bob'') ''#quizz'' ''!ask 7'' None (clearGame s1))"
    by auto
  with op invalid show ?thesis
    by blast
qed

text \<open>
  A forced question in a running session: the tip timer and the resolution timer the
  session holds are cancelled and a new next-question timer is armed, but a
  next-question timer that is still pending is not cancelled (\<^verbatim>\<open>stopCommand\<close> does cancel
  it), and its handle is overwritten.
\<close>

lemma ask_keeps_next_question_timer:
  assumes "isOp e u to" and "running s" and "questionAt e (questions s) args = Some q"
    and "continuousNoAnswerCount s < continuousNoAnswer (options s)"
  shows "askQuestionCommand e (Some u) to message args s =
     Inr (s\<lparr>currentQuestion := None,
            said := said s @ [(to, NextQuestionIn (timeBetweenQuestion (options s)))],
            timers := filter (\<lambda>t. Some (handle t) \<noteq> currentEndingSoonTimer s \<and>
                                 Some (handle t) \<noteq> currentTotalTimer s) (timers s) @
                      [\<lparr>handle = nextHandle s,
                        due = now s + timeout_delay (timeBetweenQuestion (options s)),
                        action = NextQuestionCb (Some u) to message q\<rparr>],
            nextHandle := Suc (nextHandle s),
            nextQuestionTimer := Some (nextHandle s)\<rparr>)"
  using assms
  by (simp add: askQuestionCommand_def refused_def game_forced schedule_question_eq clearGame_eq)

subsection \<open>A correct answer\<close>

lemma handleAnswer_good:
  assumes "currentQuestion s = Some q" and "isGoodAnswer q message"
  shows "handleAnswer e user to message s =
     game e (Some user) to message None
       (s\<lparr>userlist := (userlist s)(user := Some (plusGoodAnswer (incrementPoints (the_user s user)))),
          said := said s @ [(to, GoodAnswer (name (the_user s user)) (points (the_user s user) + 1)),
                            (to, DisplayAnswer q)],
          continuousNoAnswerCount := 0,
          currentQuestion := None,
          timers := filter (\<lambda>t. Some (handle t) \<noteq> currentEndingSoonTimer s \<and>
                               Some (handle t) \<noteq> currentTotalTimer s) (timers s),
          saved := Suc (saved s)\<rparr>)"
  using assms
  by (simp add: handleAnswer_def prim_eqs Let_def incrementPoints_def plusGoodAnswer_def)

lemma handleAnswer_wrong:
  assumes "currentQuestion s = Some q" and "\<not> isGoodAnswer q message"
  shows "handleAnswer e user to message s = upd_user user plusAnswer s"
  using assms by (simp add: handleAnswer_def)

text \<open>The state after a correct answer when the cycle goes on.\<close>

lemma handleAnswer_schedules:
  assumes "currentQuestion s = Some q" and "isGoodAnswer q message"
    and "getNextQuestion e (selections s) (questions s) = Some q'"
    and "0 < continuousNoAnswer (options s)"
  shows "handleAnswer e user to message s =
     s\<lparr>userlist := (userlist s)(user := Some (plusGoodAnswer (incrementPoints (the_user s user)))),
       said := said s @ [(to, GoodAnswer (name (the_user s user)) (points (the_user s user) + 1)),
                         (to, DisplayAnswer q),
                         (to, NextQuestionIn (timeBetweenQuestion (options s)))],
       continuousNoAnswerCount := 0,
       currentQuestion := None,
       timers := filter (\<lambda>t. Some (handle t) \<noteq> currentEndingSoonTimer s \<and>
                            Some (handle t) \<noteq> currentTotalTimer s) (timers s) @
                 [\<lparr>handle = nextHandle s,
                   due = now s + timeout_delay (timeBetweenQuestion (options s)),
                   action = NextQuestionCb (Some user) to message q'\<rparr>],
       saved := Suc (saved s),
       selections := Suc (selections s),
       nextHandle := Suc (nextHandle s),
       nextQuestionTimer := Some (nextHandle s)\<rparr>"
  using assms(3,4)
  by (simp add: handleAnswer_good [OF assms(1,2)] game_unforced schedule_question_eq)

text \<open>The state after a correct answer when the cycle ends the game.\<close>

lemma handleAnswer_stops:
  assumes "currentQuestion s = Some q" and "isGoodAnswer q message" and "running s"
    and "getNextQuestion e (selections s) (questions s) = None \<or>
         continuousNoAnswer (options s) \<le> 0"
  shows "handleAnswer e user to message s =
     s\<lparr>userlist := (userlist s)(user := Some (plusGoodAnswer (incrementPoints (the_user s user)))),
       said := said s @ [(to, GoodAnswer (name (the_user s user)) (points (the_user s user) + 1)),
                         (to, DisplayAnswer q),
                         (to, if continuousNoAnswer (options s) \<le> 0
                              then StoppingQuizzForInactivity else StoppingQuizz)],
       continuousNoAnswerCount := 0,
       currentQuestion := None,
       timers := filter (\<lambda>t. Some (handle t) \<noteq> currentEndingSoonTimer s \<and>
                            Some (handle t) \<noteq> currentTotalTimer s \<and>
                            Some (handle t) \<noteq> nextQuestionTimer s) (timers s),
       saved := Suc (Suc (saved s)),
       selections := Suc (selections s),
       running := False\<rparr>"
proof -
  let ?a = "s\<lparr>userlist := (userlist s)(user := Some (plusGoodAnswer (incrementPoints (the_user s user)))),
          said := said s @ [(to, GoodAnswer (name (the_user s user)) (points (the_user s user) + 1)),
                            (to, DisplayAnswer q)],
          continuousNoAnswerCount := 0,
          currentQuestion := None,
          timers := filter (\<lambda>t. Some (handle t) \<noteq> currentEndingSoonTimer s \<and>
                               Some (handle t) \<noteq> currentTotalTimer s) (timers s),
          saved := Suc (saved s),
          selections := Suc (selections s)\<rparr>"
  have route: "handleAnswer e user to message s = stopCommand e None to message ?a"
  proof (cases "getNextQuestion e (selections s) (questions s)")
    case None
    then show ?thesis
      by (simp add: handleAnswer_good [OF assms(1,2)] game_unforced)
  next
    case (Some q')
    with assms(4) have "continuousNoAnswer (options s) \<le> 0"
      by simp
    with Some show ?thesis
      by (simp add: handleAnswer_good [OF assms(1,2)] game_unforced)
  qed
  have live: "running ?a"
    by (simp add: assms(3))
  have pending: "filter (\<lambda>t. Some (handle t) \<noteq> currentEndingSoonTimer s \<and>
                            Some (handle t) \<noteq> currentTotalTimer s \<and>
                            Some (handle t) \<noteq> nextQuestionTimer s)
                   (filter (\<lambda>t. Some (handle t) \<noteq> currentEndingSoonTimer s \<and>
                                Some (handle t) \<noteq> currentTotalTimer s) (timers s)) =
                 filter (\<lambda>t. Some (handle t) \<noteq> currentEndingSoonTimer s \<and>
                            Some (handle t) \<noteq> currentTotalTimer s \<and>
                            Some (handle t) \<noteq> nextQuestionTimer s) (timers s)"
    unfolding filter_filter by (rule filter_cong) auto
  show ?thesis
    unfolding route stopCommand_null_running [OF live]
    using pending by simp
qed

text \<open>
  C6, as stated: every correct answer schedules exactly one next question cycle after
  timeBetweenQuestions.  In the game below alice answers both questions of the pool;
  after her second answer the selection has no question left, the session is stopped
  and no timer is pending.
\<close>

theorem handleAnswer_next_cycle_counterexample:
  "\<not> isl (run ex_env ex_last_answer_trace ex_bot) \<and>
   points (the_user (projr (run ex_env ex_last_answer_trace ex_bot)) ''alice'') = 2 \<and>
   \<not> running (projr (run ex_env ex_last_answer_trace ex_bot)) \<and>
   timers (projr (run ex_env ex_last_answer_trace ex_bot)) = []"
  by code_simp

text \<open>
  C6, amended.  For an answer that matches the current question of a running session,
  the answering user gets one point, one correct-answer credit and one more answer
  counted; the success is announced with the updated point total and the answer is
  revealed; consecutiveNoAnswerCount is reset to 0; the active question is cleared and
  the tip timer and the resolution timer the session holds are cancelled; the scores
  are saved; and the question cycle is entered once.  When the selection returns a
  question (and the inactivity limit is positive) exactly one next-question timer is
  armed, due after timeBetweenQuestion; otherwise the session is stopped, with nothing
  scheduled.
\<close>

theorem handleAnswer_correct:
  assumes active: "currentQuestion s = Some q" and running: "running s"
    and good: "isGoodAnswer q message"
  shows "points (the_user (handleAnswer e user to message s) user) = points (the_user s user) + 1 \<and>
         goodAnswers (the_user (handleAnswer e user to message s) user) = goodAnswers (the_user s user) + 1 \<and>
         totalAnswers (the_user (handleAnswer e user to message s) user) = totalAnswers (the_user s user) + 1 \<and>
         take (length (said s) + 2) (said (handleAnswer e user to message s)) =
           said s @ [(to, GoodAnswer (name (the_user s user)) (points (the_user s user) + 1)),
                     (to, DisplayAnswer q)] \<and>
         length (said (handleAnswer e user to message s)) = length (said s) + 3 \<and>
         continuousNoAnswerCount (handleAnswer e user to message s) = 0 \<and>
         currentQuestion (handleAnswer e user to message s) = None \<and>
         saved s < saved (handleAnswer e user to message s) \<and>
         (if getNextQuestion e (selections s) (questions s) \<noteq> None \<and> 0 < continuousNoAnswer (options s)
          then running (handleAnswer e user to message s) \<and>
               last (said (handleAnswer e user to message s)) =
                 (to, NextQuestionIn (timeBetweenQuestion (options s))) \<and>
               timers (handleAnswer e user to message s) =
                 filter (\<lambda>t. Some (handle t) \<noteq> currentEndingSoonTimer s \<and>
                              Some (handle t) \<noteq> currentTotalTimer s) (timers s) @
                 [\<lparr>handle = nextHandle s,
                   due = now s + timeout_delay (timeBetweenQuestion (options s)),
                   action = NextQuestionCb (Some user) to message
                              (the (getNextQuestion e (selections s) (questions s)))\<rparr>] \<and>
               nextQuestionTimer (handleAnswer e user to message s) = Some (nextHandle s)
          else \<not> running (handleAnswer e user to message s) \<and>
               last (said (handleAnswer e user to message s)) =
                 (to, if continuousNoAnswer (options s) \<le> 0
                      then StoppingQuizzForInactivity else StoppingQuizz) \<and>
               timers (handleAnswer e user to message s) =
                 filter (\<lambda>t. Some (handle t) \<noteq> currentEndingSoonTimer s \<and>
                              Some (handle t) \<noteq> currentTotalTimer s \<and>
                              Some (handle t) \<noteq> nextQuestionTimer s) (timers s))"
proof (cases "getNextQuestion e (selections s) (questions s) \<noteq> None \<and> 0 < continuousNoAnswer (options s)")
  case True
  then obtain q' where pick: "getNextQuestion e (selections s) (questions s) = Some q'"
    and lim: "0 < continuousNoAnswer (options s)"
    by auto
  show ?thesis
    unfolding handleAnswer_schedules [OF active good pick lim]
    using pick lim running
    by (simp add: the_user_def plusGoodAnswer_def incrementPoints_def)
next
  case False
  then have stop: "getNextQuestion e (selections s) (questions s) = None \<or>
                   continuousNoAnswer (options s) \<le> 0"
    by auto
  show ?thesis
    unfolding handleAnswer_stops [OF active good running stop]
    using False
    by (simp add: the_user_def plusGoodAnswer_def incrementPoints_def)
qed

theorem handleAnswer_correct_witness:
  "currentQuestion ex_active = Some ex_q1 \<and> running ex_active \<and> isGoodAnswer ex_q1 ''4'' \<and>
   points (the_user (handleAnswer ex_env ''alice'' ''#quizz'' ''4'' ex_active) ''alice'') = 1 \<and>
   totalAnswers (the_user (handleAnswer ex_env ''alice'' ''#quizz'' ''4'' ex_active) ''alice'') = 1 \<and>
   continuousNoAnswerCount (handleAnswer ex_env ''alice'' ''#quizz'' ''4'' ex_active) = 0 \<and>
   map action (timers (handleAnswer ex_env ''alice'' ''#quizz'' ''4'' ex_active)) =
     [NextQuestionCb (Some ''alice'') ''#quizz'' ''4'' ex_q2]"
proof -
  have active: "currentQuestion ex_active = Some ex_q1" and running: "running ex_active"
    by (simp_all add: ex_active_def)
  have good: "isGoodAnswer ex_q1 ''4''"
    by code_simp
  have pick: "getNextQuestion ex_env (selections ex_active) (questions ex_active) = Some ex_q2"
    by (simp add: ex_active_def ex_bot_def ex_env_def new_QuizzBot_def)
  have lim: "continuousNoAnswer (options ex_active) = 8"
    using ex_bot_limit by (simp add: ex_active_def)
  have fresh: "the_user ex_active ''alice'' = new_User ''alice''" and none: "timers ex_active = []"
    by (simp_all add: the_user_def ex_active_def ex_bot_def new_QuizzBot_def)
  show ?thesis
    using handleAnswer_correct [OF active running good, of ex_env "''alice''" "''#quizz''"]
      active running good pick lim fresh none
    by (simp add: new_User_def)
qed

subsection \<open>Timers that outlive their question\<close>

text \<open>
  C2.  currentQuestion is never non-null while running is false.  The run below breaks
  it: the second forced question overwrites the handle of the first next-question timer
  without cancelling it, stop cancels only the second, and when the first fires the
  stopped session gets a current question.
\<close>

theorem question_active_while_stopped:
  "\<not> isl (run ex_env ex_orphan_trace ex_bot) \<and>
   \<not> running (projr (run ex_env ex_orphan_trace ex_bot)) \<and>
   currentQuestion (projr (run ex_env ex_orphan_trace ex_bot)) = Some ex_q1"
  by code_simp

text \<open>
  C1.  Every transition out of the question-active state cancels all timers armed for
  the question, and no timer of a superseded state takes effect.  The run below breaks
  it: after two forced questions both next-question timers fire and arm two pairs of
  timers for the one question; the correct answer cancels the pair the session holds;
  the other pair is still pending when no question is active, and its tip timer then
  fires, announces the end of a question that is over and throws.
\<close>

theorem stale_timers_after_answer:
  "\<not> isl (run ex_env ex_stale_trace ex_bot) \<and>
   currentQuestion (projr (run ex_env ex_stale_trace ex_bot)) = None \<and>
   map action (timers (projr (run ex_env ex_stale_trace ex_bot))) =
     [TotalCb (Some ''bob'') ''#quizz'' ''!ask 1'', EndingSoonCb ''#quizz'',
      NextQuestionCb (Some ''alice'') ''#quizz'' ''4'' ex_q1] \<and>
   isl (run ex_env (ex_stale_trace @ [Fire]) ex_bot) \<and>
   projl (run ex_env (ex_stale_trace @ [Fire]) ex_bot) = TypeError"
  by code_simp

subsection \<open>Runs without a forced question while the next question is pending\<close>

text \<open>
  The correct-answer, timeout and stop paths, and a forced question in every other
  phase, keep the pending timers those of the phase.  So in every run in which no
  forced-question command arrives while a next-question timer is pending, no callback
  throws, no timer outlives its phase, and a question is current only while the session
  is running.
\<close>

lemma tidy_cases [consumes 1, case_names idle awaiting tip_pending tip_done]:
  assumes "tidy s"
  obtains
    "\<not> running s" "currentQuestion s = None" "timers s = []"
  | t where "running s" "currentQuestion s = None" "timers s = [t]"
      "nextQuestionTimer s = Some (handle t)" "is_next (action t)"
  | q t u where "running s" "currentQuestion s = Some q" "timers s = [t, u]"
      "currentTotalTimer s = Some (handle t)" "is_total (action t)"
      "currentEndingSoonTimer s = Some (handle u)" "is_tip (action u)" "handle t \<noteq> handle u"
  | q t where "running s" "currentQuestion s = Some q" "timers s = [t]"
      "currentTotalTimer s = Some (handle t)" "is_total (action t)"
  using assms unfolding tidy_def
  by (cases "(running s, currentQuestion s, timers s, currentTotalTimer s,
              currentEndingSoonTimer s, nextQuestionTimer s)" rule: phase_ok.cases) auto

lemma tidy_new: "tidy (new_QuizzBot opts qs)"
  by (simp add: tidy_def new_QuizzBot_def)

lemma tidy_getUser: "tidy (getUser n to s) = tidy s"
  by (simp add: tidy_def getUser_def upd_user_def)

lemma tidy_upd_user: "tidy (upd_user n f s) = tidy s"
  by (simp add: tidy_def upd_user_def)

lemma tidy_say: "tidy (say to a s) = tidy s"
  by (simp add: tidy_def say_def)

lemma tidy_stopCommand:
  assumes "tidy s"
  shows "tidy (stopCommand e user to message s)"
proof (cases "running s \<and> \<not> refused e user to")
  case False
  with assms show ?thesis
    by (auto simp add: stopCommand_def)
next
  case True
  from assms show ?thesis
  proof (cases rule: tidy_cases)
    case idle
    with True show ?thesis by simp
  next
    case (awaiting t)
    with True show ?thesis
      by (simp add: tidy_def stopCommand_def prim_eqs Let_def split: option.splits)
  next
    case (tip_pending q t u)
    with True show ?thesis
      by (simp add: tidy_def stopCommand_def prim_eqs Let_def split: option.splits)
  next
    case (tip_done q t)
    with True show ?thesis
      by (simp add: tidy_def stopCommand_def prim_eqs Let_def split: option.splits)
  qed
qed

lemma tidy_game:
  assumes "running s" and "currentQuestion s = None" and "timers s = []"
  shows "tidy (game e user to message forcedQuestion s)"
proof (cases forcedQuestion)
  case None
  with assms show ?thesis
    by (simp add: tidy_def game_unforced schedule_question_eq stopCommand_null_running
        split: option.splits)
next
  case (Some q)
  with assms show ?thesis
    by (simp add: tidy_def game_forced schedule_question_eq stopCommand_null_running)
qed

lemma tidy_startCommand:
  assumes "tidy s"
  shows "\<exists>s'. startCommand e (Some u) to message False s = Inr s' \<and> tidy s'"
proof (cases "running s")
  case True
  with assms show ?thesis
    by (simp add: startCommand_def)
next
  case False
  with assms have idle: "currentQuestion s = None" "timers s = []"
    by (cases rule: tidy_cases; simp)+
  from startCommand_idle [OF False, of e u to message]
  obtain s1 where "startCommand e (Some u) to message False s = Inr (game e (Some u) to message None s1)"
    and "running s1" "currentQuestion s1 = currentQuestion s" "timers s1 = timers s"
    by blast
  with idle show ?thesis
    by (simp add: tidy_game)
qed

lemma tidy_handleAnswer:
  assumes "tidy s"
  shows "tidy (handleAnswer e user to message s)"
  using assms
proof (cases rule: tidy_cases)
  case idle
  with assms show ?thesis by (simp add: handleAnswer_def)
next
  case (awaiting t)
  with assms show ?thesis by (simp add: handleAnswer_def)
next
  case (tip_pending q t u)
  show ?thesis
  proof (cases "isGoodAnswer q message")
    case True
    show ?thesis
      unfolding handleAnswer_good [OF tip_pending(2) True]
      by (rule tidy_game) (simp_all add: tip_pending)
  next
    case False
    with assms tip_pending show ?thesis
      by (simp add: handleAnswer_wrong tidy_upd_user)
  qed
next
  case (tip_done q t)
  show ?thesis
  proof (cases "isGoodAnswer q message")
    case True
    show ?thesis
      unfolding handleAnswer_good [OF tip_done(2) True]
      by (rule tidy_game) (simp_all add: tip_done)
  next
    case False
    with assms tip_done show ?thesis
      by (simp add: handleAnswer_wrong tidy_upd_user)
  qed
qed


lemma tidy_fireTotal:
  assumes "running s" and "currentQuestion s = Some q"
    and "filter (\<lambda>t. Some (handle t) \<noteq> currentEndingSoonTimer s \<and>
                      Some (handle t) \<noteq> currentTotalTimer s) (timers s) = []"
  shows "\<exists>s'. fireTotal e user to message s = Inr s' \<and> tidy s'"
proof -
  let ?s5 = "saveUserlist (clearGame ((say to (DisplayAnswer q) (say to NoGoodAnswer s))
              \<lparr>continuousNoAnswerCount := continuousNoAnswerCount s + 1\<rparr>))"
  have "fireTotal e user to message s = Inr (game e user to message None ?s5)"
    using assms(2) by (simp add: fireTotal_def Let_def say_def)
  moreover have "tidy (game e user to message None ?s5)"
    by (rule tidy_game) (simp_all add: prim_eqs assms)
  ultimately show ?thesis by simp
qed

lemma tidy_fire:
  assumes "tidy s" and "earliest (timers s) = Some t"
  shows "\<exists>s'. fire e t s = Inr s' \<and> tidy s'"
  using assms(1)
proof (cases rule: tidy_cases)
  case idle
  with assms(2) show ?thesis by simp
next
  case (awaiting t0)
  with assms(2) have t: "t = t0" by simp
  from awaiting(5) obtain user to message q where "action t0 = NextQuestionCb user to message q"
    by (cases "action t0") simp_all
  with awaiting t show ?thesis
    by (simp add: fire_def fireNextQuestion_def tidy_def prim_eqs Let_def)
next
  case (tip_pending q t0 u0)
  from tip_pending(5) obtain user to message where total: "action t0 = TotalCb user to message"
    by (cases "action t0") simp_all
  from tip_pending(7) obtain to' where tip: "action u0 = EndingSoonCb to'"
    by (cases "action u0") simp_all
  from assms(2) tip_pending(3) have "t = t0 \<or> t = u0"
    by (simp split: if_splits)
  then show ?thesis
  proof
    assume t: "t = t0"
    let ?s1 = "s\<lparr>timers := filter (\<lambda>u. handle u \<noteq> handle t0) (timers s),
                  now := max (now s) (due t0)\<rparr>"
    have "\<exists>s'. fireTotal e user to message ?s1 = Inr s' \<and> tidy s'"
      by (rule tidy_fireTotal [where q = q]) (simp_all add: tip_pending)
    with total t show ?thesis
      by (simp add: fire_def)
  next
    assume t: "t = u0"
    with tip_pending tip show ?thesis
      by (simp add: fire_def fireEndingSoon_def tidy_def prim_eqs Let_def)
  qed
next
  case (tip_done q t0)
  from tip_done(5) obtain user to message where total: "action t0 = TotalCb user to message"
    by (cases "action t0") simp_all
  from assms(2) tip_done(3) have t: "t = t0"
    by simp
  let ?s1 = "s\<lparr>timers := filter (\<lambda>u. handle u \<noteq> handle t0) (timers s),
                now := max (now s) (due t0)\<rparr>"
  have "\<exists>s'. fireTotal e user to message ?s1 = Inr s' \<and> tidy s'"
    by (rule tidy_fireTotal [where q = q]) (simp_all add: tip_done)
  with total t show ?thesis
    by (simp add: fire_def)
qed

lemma tidy_askQuestionCommand:
  assumes "tidy s" and "\<not> (running s \<and> currentQuestion s = None)"
  shows "\<exists>s'. askQuestionCommand e (Some u) to message args s = Inr s' \<and> tidy s'"
proof (cases "refused e (Some u) to")
  case True
  with assms(1) show ?thesis
    by (simp add: askQuestionCommand_def)
next
  case False
  show ?thesis
  proof (cases "running s")
    case True
    have "tidy (game e (Some u) to message (questionAt e (questions s) args) (clearGame s))"
      using assms(1)
    proof (cases rule: tidy_cases)
      case idle
      with True show ?thesis by simp
    next
      case (awaiting t)
      with assms(2) show ?thesis by simp
    next
      case (tip_pending q t v)
      show ?thesis
        by (rule tidy_game) (simp_all add: clearGame_eq tip_pending)
    next
      case (tip_done q t)
      show ?thesis
        by (rule tidy_game) (simp_all add: clearGame_eq tip_done)
    qed
    with True False show ?thesis
      by (simp add: askQuestionCommand_def)
  next
    case idle: False
    with assms(1) have none: "currentQuestion s = None" "timers s = []"
      by (cases rule: tidy_cases; simp)+
    from startCommand_idle [OF idle, of e u to message]
    obtain s1 where start: "startCommand e (Some u) to message True s = Inr s1"
      and s1: "running s1" "currentQuestion s1 = currentQuestion s" "timers s1 = timers s"
      by blast
    have "tidy (game e (Some u) to message (questionAt e (questions s1) args) (clearGame s1))"
      by (rule tidy_game) (simp_all add: clearGame_eq s1 none)
    with idle False start show ?thesis
      by (simp add: askQuestionCommand_def)
  qed
qed

lemma tidy_handleCommand:
  assumes "tidy s"
    and "\<not> (hd (split_on (CHR '' '') message) = ''!ask'' \<and> running s \<and> currentQuestion s = None)"
  shows "\<exists>s'. handleCommand e user to message s = Inr s' \<and> tidy s'"
proof (cases "hd (split_on (CHR '' '') message) = ''!ask''")
  case True
  with assms(2) have "\<not> (running s \<and> currentQuestion s = None)"
    by simp
  from tidy_askQuestionCommand [OF assms(1) this, of e user to message] True
  show ?thesis
    by (simp add: handleCommand_def Let_def)
next
  case False
  with assms(1) tidy_startCommand [OF assms(1), of e user to message] show ?thesis
    by (simp add: handleCommand_def Let_def tidy_stopCommand sayCommand_def tidy_say)
qed

lemma tidy_step:
  assumes "tidy s" and "\<not> hazard ev s"
  shows "\<exists>s'. step e ev s = Inr s' \<and> tidy s'"
proof (cases ev)
  case (Message sender chan line)
  with assms(2)
  have cmd: "\<not> (hd (split_on (CHR '' '') line) = ''!ask'' \<and> running (getUser sender chan s) \<and>
                 currentQuestion (getUser sender chan s) = None)"
    by (simp add: hazard_def getUser_fields)
  have user: "tidy (getUser sender chan s)"
    using assms(1) by (simp add: tidy_getUser)
  show ?thesis
    using Message tidy_handleCommand [OF user cmd, of e sender chan]
      tidy_handleAnswer [OF user, of e sender chan line] user
    by (simp add: step_def onMessage_def Let_def)
next
  case Fire
  show ?thesis
  proof (cases "earliest (timers s)")
    case None
    with Fire assms(1) show ?thesis by (simp add: step_def)
  next
    case (Some t)
    with Fire tidy_fire [OF assms(1) Some, of e] show ?thesis by (simp add: step_def)
  qed
next
  case (Wait d)
  with assms(1) show ?thesis
    by (simp add: step_def tidy_def split: option.splits)
qed

theorem hazard_free_run_tidy:
  assumes "tidy s" and "hazard_free e evs s"
  shows "\<exists>s'. run e evs s = Inr s' \<and> tidy s'"
  using assms
proof (induction evs arbitrary: s)
  case Nil
  then show ?case by simp
next
  case (Cons ev evs)
  from Cons.prems(2) have safe: "\<not> hazard ev s"
    by (simp split: if_splits)
  with tidy_step [OF Cons.prems(1), of ev e] obtain s1
    where s1: "step e ev s = Inr s1" "tidy s1"
    by blast
  with Cons.prems(2) safe have "hazard_free e evs s1"
    by simp
  with Cons.IH [OF s1(2)] s1(1) show ?case by simp
qed

lemma tidy_question_implies_running: "tidy s \<Longrightarrow> currentQuestion s \<noteq> None \<Longrightarrow> running s"
  by (cases rule: tidy_cases) simp_all



text \<open>From the state the constructor leaves.\<close>

corollary hazard_free_run_from_start:
  assumes "hazard_free e evs (new_QuizzBot opts qs)"
  shows "\<exists>s'. run e evs (new_QuizzBot opts qs) = Inr s' \<and>
              (currentQuestion s' \<noteq> None \<longrightarrow> running s') \<and> length (timers s') \<le> 2"
proof -
  from hazard_free_run_tidy [OF tidy_new assms]
  obtain s' where s': "run e evs (new_QuizzBot opts qs) = Inr s'" "tidy s'"
    by blast
  from s'(2) have "length (timers s') \<le> 2"
    by (cases rule: tidy_cases) simp_all
  with s' tidy_question_implies_running [OF s'(2)] show ?thesis
    by blast
qed

text \<open>The game of two answered questions is such a run; the two runs with a repeated
  forced question are not.\<close>

lemma hazard_free_examples:
  "hazard_free ex_env ex_last_answer_trace ex_bot"
  "\<not> hazard_free ex_env ex_orphan_trace ex_bot"
  "\<not> hazard_free ex_env ex_stale_trace ex_bot"
  by code_simp+

end
